theory Spec2Isabelle
  imports Main "HOL-Library.Sublist" "HOL-Library.AList"
begin

section \<open>Python strings\<close>

text \<open>
  A Python \<open>str\<close> is modelled as a \<open>string\<close> whose characters are the code points
  below 256 (Latin-1), so that the pound sign of the price cells, U+00A3, is the single
  character \<open>CHR 0xA3\<close>, as it is one code point in the source.
\<close>

definition pound :: char where
  "pound = CHR 0xA3"

text \<open>\<open>str.isspace\<close> on one code point below 256.\<close>

definition isspace :: "char \<Rightarrow> bool" where
  "isspace c = ((of_char c :: nat) \<in> set [9, 10, 11, 12, 13, 28, 29, 30, 31, 32, 133, 160])"

text \<open>\<open>s.strip()\<close>: leading and trailing whitespace removed.\<close>

definition strip :: "string \<Rightarrow> string" where
  "strip s = rev (dropWhile isspace (rev (dropWhile isspace s)))"

text \<open>\<open>sub in s\<close>: \<open>sub\<close> occurs in \<open>s\<close> as a contiguous substring.\<close>

fun substr_in :: "string \<Rightarrow> string \<Rightarrow> bool" where
  "substr_in sub [] = (sub = [])"
| "substr_in sub (c # cs) = (prefix sub (c # cs) \<or> substr_in sub cs)"

text \<open>\<open>c.lower()\<close> on one code point below 256: A-Z and the accented capitals
  U+00C0..U+00DE (but the multiplication sign U+00D7) move up by 32.\<close>

definition lower_char :: "char \<Rightarrow> char" where
  "lower_char c =
     (let n = (of_char c :: nat)
      in if (65 \<le> n \<and> n \<le> 90) \<or> (192 \<le> n \<and> n \<le> 222 \<and> n \<noteq> 215)
         then char_of (n + 32) else c)"

definition lower :: "string \<Rightarrow> string" where
  "lower s = map lower_char s"

text \<open>\<open>s.replace(c, new)\<close> for a pattern \<open>c\<close> of one character: every occurrence is
  replaced.\<close>

definition replace_char :: "char \<Rightarrow> string \<Rightarrow> string \<Rightarrow> string" where
  "replace_char c new s = concat (map (\<lambda>x. if x = c then new else [x]) s)"

text \<open>\<open>sep.join(xs)\<close>.\<close>

fun join :: "string \<Rightarrow> string list \<Rightarrow> string" where
  "join sep [] = []"
| "join sep [x] = x"
| "join sep (x # y # ys) = x @ sep @ join sep (y # ys)"

section \<open>The parsed page\<close>

text \<open>
  The tree that the markup parser hands to the scraper. A tag has a name, its
  single-valued attributes, the tokens of its \<open>class\<close> attribute (the parser splits that
  attribute at whitespace; no \<open>class\<close> attribute and an empty one both read as \<open>[]\<close>
  through \<open>tag.get('class', [])\<close>), and its children.
\<close>

datatype node =
    Tag string "(string \<times> string) list" "string list" "node list"
  | NavigableString string

fun contents :: "node \<Rightarrow> node list" where
  "contents (Tag n a cs ch) = ch"
| "contents (NavigableString s) = []"

fun classes :: "node \<Rightarrow> string list" where
  "classes (Tag n a cs ch) = cs"
| "classes (NavigableString s) = []"

text \<open>\<open>tag.get(key, default)\<close> for a single-valued attribute.\<close>

fun get_attr :: "node \<Rightarrow> string \<Rightarrow> string \<Rightarrow> string" where
  "get_attr (Tag n a cs ch) key dflt = (case map_of a key of Some v \<Rightarrow> v | None \<Rightarrow> dflt)"
| "get_attr (NavigableString s) key dflt = dflt"

text \<open>
  The search filter of \<open>find(name)\<close> and \<open>find(name, class_=c)\<close>: the tag's name is
  \<open>name\<close> and, when a class is asked for, \<open>c\<close> is one of the tag's class tokens.
\<close>

fun matches :: "string \<Rightarrow> string option \<Rightarrow> node \<Rightarrow> bool" where
  "matches name cls (Tag n a cs ch) =
     (n = name \<and> (case cls of None \<Rightarrow> True | Some c \<Rightarrow> c \<in> set cs))"
| "matches name cls (NavigableString s) = False"

text \<open>\<open>find\<close>: the first matching descendant in document order, or \<open>None\<close>.\<close>

primrec find_node :: "string \<Rightarrow> string option \<Rightarrow> node \<Rightarrow> node option"
  and find_nodes :: "string \<Rightarrow> string option \<Rightarrow> node list \<Rightarrow> node option" where
  "find_node name cls (Tag n a cs ch) =
     (if matches name cls (Tag n a cs ch) then Some (Tag n a cs ch)
      else find_nodes name cls ch)"
| "find_node name cls (NavigableString s) = None"
| "find_nodes name cls [] = None"
| "find_nodes name cls (x # xs) =
     (case find_node name cls x of Some r \<Rightarrow> Some r | None \<Rightarrow> find_nodes name cls xs)"

definition find_tag :: "node \<Rightarrow> string \<Rightarrow> node option" where
  "find_tag el name = find_nodes name None (contents el)"

definition find_tag_class :: "node \<Rightarrow> string \<Rightarrow> string \<Rightarrow> node option" where
  "find_tag_class el name c = find_nodes name (Some c) (contents el)"

text \<open>\<open>find_all\<close>: every matching descendant in document order, nested matches
  included.\<close>

primrec find_all_node :: "string \<Rightarrow> string option \<Rightarrow> node \<Rightarrow> node list"
  and find_all_nodes :: "string \<Rightarrow> string option \<Rightarrow> node list \<Rightarrow> node list" where
  "find_all_node name cls (Tag n a cs ch) =
     (if matches name cls (Tag n a cs ch) then [Tag n a cs ch] else [])
     @ find_all_nodes name cls ch"
| "find_all_node name cls (NavigableString s) = []"
| "find_all_nodes name cls [] = []"
| "find_all_nodes name cls (x # xs) = find_all_node name cls x @ find_all_nodes name cls xs"

definition find_all_class :: "node \<Rightarrow> string \<Rightarrow> string \<Rightarrow> node list" where
  "find_all_class el name c = find_all_nodes name (Some c) (contents el)"

text \<open>\<open>get_text()\<close>: the strings below the tag, concatenated in document order.\<close>

primrec text_node :: "node \<Rightarrow> string"
  and text_nodes :: "node list \<Rightarrow> string" where
  "text_node (Tag n a cs ch) = text_nodes ch"
| "text_node (NavigableString s) = s"
| "text_nodes [] = []"
| "text_nodes (x # xs) = text_node x @ text_nodes xs"

definition get_text :: "node \<Rightarrow> string" where
  "get_text el = text_nodes (contents el)"

section \<open>Values, records and the library\<close>

text \<open>
  The values a field of a record holds: \<open>None\<close>, a \<open>str\<close>, an \<open>int\<close> or a \<open>float\<close>.
  The type \<open>'f\<close> of floats is a parameter: binary floating point is not modelled.
\<close>

datatype 'f pyval = PyNone | PyStr string | PyInt int | PyFloat 'f

text \<open>
  A record of one book is a Python \<open>dict\<close>, modelled as an association list in
  insertion order; \<open>d[k] = v\<close> is \<open>AList.update k v d\<close> and \<open>d.get(k)\<close> is
  \<open>map_of d k\<close>.
\<close>

type_synonym 'f book = "(string \<times> 'f pyval) list"

text \<open>
  The functions of the Python library that the scraper calls and that are taken as
  parameters:
  \<^item> \<open>urljoin base url\<close> is \<open>urllib.parse.urljoin\<close>; \<open>None\<close> stands for the
    \<open>ValueError\<close> it raises on a malformed reference;
  \<^item> \<open>py_float s\<close> is \<open>float(s)\<close>; \<open>None\<close> stands for its \<open>ValueError\<close>;
  \<^item> \<open>str_float x\<close> is \<open>str(x)\<close> of a float, which the CSV writer prints.
\<close>

record 'f lib =
  urljoin :: "string \<Rightarrow> string \<Rightarrow> string option"
  py_float :: "string \<Rightarrow> 'f option"
  str_float :: "'f \<Rightarrow> string"

section \<open>The extractor\<close>

text \<open>\<open>BookScraper.extract_rating\<close>: the dictionary \<open>rating_map\<close> is walked in insertion
  order and the first word that occurs in the class string decides.\<close>

definition rating_map :: "(string \<times> int) list" where
  "rating_map = [(''One'', 1), (''Two'', 2), (''Three'', 3), (''Four'', 4), (''Five'', 5)]"

fun first_word_in :: "(string \<times> int) list \<Rightarrow> string \<Rightarrow> int option" where
  "first_word_in [] rating_class = None"
| "first_word_in ((word, rating) # rest) rating_class =
     (if substr_in word rating_class then Some rating else first_word_in rest rating_class)"

definition extract_rating :: "string \<Rightarrow> int option" where
  "extract_rating rating_class = first_word_in rating_map rating_class"

text \<open>The four optional fields of \<open>BookScraper.extract_book_data\<close>, each the value the
  source stores under its key.\<close>

definition price_field :: "'f lib \<Rightarrow> node \<Rightarrow> 'f pyval" where
  "price_field lib book_element =
     (case find_tag_class book_element ''p'' ''price_color'' of
        Some price_tag \<Rightarrow>
          (let price_text = strip (get_text price_tag)
           in case py_float lib (replace_char pound [] price_text) of
                Some x \<Rightarrow> PyFloat x
              | None \<Rightarrow> PyNone)
      | None \<Rightarrow> PyNone)"

definition rating_field :: "node \<Rightarrow> 'f pyval" where
  "rating_field book_element =
     (case find_tag_class book_element ''p'' ''star-rating'' of
        Some rating_tag \<Rightarrow>
          (let rating_class = join '' '' (classes rating_tag)
           in case extract_rating rating_class of
                Some r \<Rightarrow> PyInt r
              | None \<Rightarrow> PyNone)
      | None \<Rightarrow> PyNone)"

definition availability_tag :: "node \<Rightarrow> node option" where
  "availability_tag book_element =
     (case find_tag_class book_element ''p'' ''instock'' of
        Some t \<Rightarrow> Some t
      | None \<Rightarrow> find_tag_class book_element ''p'' ''outofstock'')"

definition normalize_availability :: "string \<Rightarrow> string" where
  "normalize_availability availability_text =
     (if substr_in ''In stock'' availability_text
         \<or> substr_in ''instock'' (lower availability_text)
      then ''In stock''
      else if substr_in ''Out of stock'' availability_text
         \<or> substr_in ''outofstock'' (lower availability_text)
      then ''Out of stock''
      else availability_text)"

definition availability_field :: "node \<Rightarrow> 'f pyval" where
  "availability_field book_element =
     (case availability_tag book_element of
        Some t \<Rightarrow> PyStr (normalize_availability (strip (get_text t)))
      | None \<Rightarrow> PyNone)"

text \<open>
  \<open>BookScraper.extract_book_data\<close>. The result \<open>None\<close> is the source's \<open>return None\<close>:
  on a missing title link, and in the handler of the enclosing \<open>try\<close>, which only a
  \<open>ValueError\<close> of \<open>urljoin\<close> can reach.
\<close>

definition extract_book_data :: "'f lib \<Rightarrow> string \<Rightarrow> node \<Rightarrow> 'f book option" where
  "extract_book_data lib base_url book_element =
     (case find_tag book_element ''h3'' of
        None \<Rightarrow> None
      | Some title_tag \<Rightarrow>
          (case find_tag title_tag ''a'' of
             None \<Rightarrow> None
           | Some a \<Rightarrow>
               (let book_data = AList.update ''Title'' (PyStr (strip (get_attr a ''title'' []))) [];
                    book_data = AList.update ''Price'' (price_field lib book_element) book_data;
                    book_data = AList.update ''Rating'' (rating_field book_element) book_data;
                    book_data = AList.update ''Availability'' (availability_field book_element) book_data
                in case find_tag book_element ''h3'' of
                     None \<Rightarrow> Some (AList.update ''URL'' PyNone book_data)
                   | Some link_tag \<Rightarrow>
                       (case find_tag link_tag ''a'' of
                          None \<Rightarrow> Some (AList.update ''URL'' PyNone book_data)
                        | Some link \<Rightarrow>
                            (case urljoin lib base_url (get_attr link ''href'' []) of
                               None \<Rightarrow> None
                             | Some url \<Rightarrow> Some (AList.update ''URL'' (PyStr url) book_data))))))"

section \<open>Fetching and crawling\<close>

text \<open>
  The network is state: the answer to a request depends on the address and on when it is
  made. \<open>net n url\<close> is the parsed page that the \<open>n\<close>-th request of the run gets when
  it asks for \<open>url\<close>, and \<open>None\<close> when that request fails (\<open>BookScraper.get_page\<close>
  turns every failure into \<open>None\<close>). The state threaded through the scraper is the number
  of requests made so far.
\<close>

type_synonym net = "nat \<Rightarrow> string \<Rightarrow> node option"

definition get_page :: "net \<Rightarrow> nat \<Rightarrow> string \<Rightarrow> node option \<times> nat" where
  "get_page net n url = (net n url, Suc n)"

text \<open>The loop of \<open>BookScraper.scrape_page\<close>: a book is kept when \<open>extract_book_data\<close>
  returns a dictionary that is not empty (\<open>if book_data:\<close>).\<close>

fun collect_books :: "'f lib \<Rightarrow> string \<Rightarrow> node list \<Rightarrow> 'f book list" where
  "collect_books lib base_url [] = []"
| "collect_books lib base_url (book_element # rest) =
     (case extract_book_data lib base_url book_element of
        Some book_data \<Rightarrow>
          (if book_data \<noteq> [] then book_data # collect_books lib base_url rest
           else collect_books lib base_url rest)
      | None \<Rightarrow> collect_books lib base_url rest)"

definition scrape_page ::
  "'f lib \<Rightarrow> string \<Rightarrow> net \<Rightarrow> nat \<Rightarrow> string \<Rightarrow> 'f book list \<times> nat" where
  "scrape_page lib base_url net n url =
     (case get_page net n url of
        (None, n') \<Rightarrow> ([], n')
      | (Some soup, n') \<Rightarrow>
          (collect_books lib base_url (find_all_class soup ''article'' ''product_pod''), n'))"

text \<open>\<open>BookScraper.get_next_page_url\<close>; a \<open>ValueError\<close> of \<open>urljoin\<close> is caught and
  gives \<open>None\<close>.\<close>

definition get_next_page_url :: "'f lib \<Rightarrow> node \<Rightarrow> string \<Rightarrow> string option" where
  "get_next_page_url lib soup current_url =
     (case find_tag_class soup ''li'' ''next'' of
        None \<Rightarrow> None
      | Some next_button \<Rightarrow>
          (case find_tag next_button ''a'' of
             None \<Rightarrow> None
           | Some a \<Rightarrow> urljoin lib current_url (get_attr a ''href'' [])))"

text \<open>
  One round of the \<open>while\<close> loop of \<open>BookScraper.scrape_all_pages\<close>, entered with a
  current address: the page is scraped (one request), its books are appended, and the
  address is requested again for the link to the next page. The round either goes on
  with a new state or breaks out of the loop.
\<close>

datatype ('s, 'r) round = Continue 's | Break 'r

type_synonym 'f crawl = "nat \<times> 'f book list \<times> string option"

definition crawl_round ::
  "'f lib \<Rightarrow> string \<Rightarrow> net \<Rightarrow> nat \<Rightarrow> 'f book list \<Rightarrow> string
     \<Rightarrow> ('f crawl, 'f book list \<times> nat) round" where
  "crawl_round lib base_url net n all_books current_url =
     (case scrape_page lib base_url net n current_url of
        (page_books, n1) \<Rightarrow>
          (case get_page net n1 current_url of
             (Some soup, n2) \<Rightarrow>
               Continue (n2, all_books @ page_books, get_next_page_url lib soup current_url)
           | (None, n2) \<Rightarrow> Break (all_books @ page_books, n2)))"

text \<open>\<open>while current_url:\<close> runs while the address is neither \<open>None\<close> nor the empty
  string.\<close>

fun truthy :: "string option \<Rightarrow> bool" where
  "truthy None = False"
| "truthy (Some u) = (u \<noteq> [])"

text \<open>The loop may run forever (a site whose pages link in a cycle), so it is a partial
  function: \<open>None\<close> is the run that never returns.\<close>

partial_function (option) scrape_loop ::
  "'f lib \<Rightarrow> string \<Rightarrow> net \<Rightarrow> 'f crawl \<Rightarrow> ('f book list \<times> nat) option" where
  "scrape_loop lib base_url net st =
     (case st of (n, all_books, current_url) \<Rightarrow>
        if truthy current_url
        then (case crawl_round lib base_url net n all_books (the current_url) of
                Continue st' \<Rightarrow> scrape_loop lib base_url net st'
              | Break r \<Rightarrow> Some r)
        else Some (all_books, n))"

declare scrape_loop.simps [code]

definition scrape_all_pages ::
  "'f lib \<Rightarrow> string \<Rightarrow> net \<Rightarrow> nat \<Rightarrow> ('f book list \<times> nat) option" where
  "scrape_all_pages lib base_url net n = scrape_loop lib base_url net (n, [], Some base_url)"

section \<open>The serializer\<close>

definition fieldnames :: "string list" where
  "fieldnames = [''Title'', ''Price'', ''Rating'', ''Availability'', ''URL'']"

definition CR :: char where
  "CR = CHR 0x0D"

definition LF :: char where
  "LF = CHR 0x0A"

text \<open>\<open>str(i)\<close> of an \<open>int\<close>.\<close>

fun str_nat :: "nat \<Rightarrow> string" where
  "str_nat n = (if n < 10 then [char_of (48 + n)] else str_nat (n div 10) @ [char_of (48 + n mod 10)])"

definition str_int :: "int \<Rightarrow> string" where
  "str_int i = (if i < 0 then CHR ''-'' # str_nat (nat (- i)) else str_nat (nat i))"

text \<open>What the CSV writer prints for a value: nothing for \<open>None\<close>, a string as it is,
  \<open>str\<close> of a number.\<close>

fun field_str :: "'f lib \<Rightarrow> 'f pyval \<Rightarrow> string" where
  "field_str lib PyNone = []"
| "field_str lib (PyStr s) = s"
| "field_str lib (PyInt i) = str_int i"
| "field_str lib (PyFloat x) = str_float lib x"

text \<open>
  The \<open>excel\<close> dialect with minimal quoting: a field that holds the delimiter, the quote
  character or a character of the line terminator is put in quotes, the quotes inside it
  doubled.
\<close>

definition needs_quotes :: "string \<Rightarrow> bool" where
  "needs_quotes s = list_ex (\<lambda>c. c = CHR '','' \<or> c = CHR 0x22 \<or> c = CR \<or> c = LF) s"

definition csv_field :: "string \<Rightarrow> string" where
  "csv_field s =
     (if needs_quotes s then CHR 0x22 # replace_char (CHR 0x22) [CHR 0x22, CHR 0x22] s @ [CHR 0x22]
      else s)"

text \<open>One row of five fields (the writer's special case, a row of a single empty field,
  does not arise), ended by the dialect's line terminator.\<close>

definition csv_row :: "'f lib \<Rightarrow> 'f pyval list \<Rightarrow> string" where
  "csv_row lib cells = join '','' (map (\<lambda>v. csv_field (field_str lib v)) cells) @ [CR, LF]"

datatype exn = OSError | ValueError

text \<open>\<open>DictWriter._dict_to_list\<close>: a key outside \<open>fieldnames\<close> raises \<open>ValueError\<close>; a
  missing key reads as the empty string.\<close>

definition dict_to_list :: "'f book \<Rightarrow> exn + 'f pyval list" where
  "dict_to_list rowdict =
     (if list_ex (\<lambda>k. k \<notin> set fieldnames) (map fst rowdict) then Inl ValueError
      else Inr (map (\<lambda>key. case map_of rowdict key of Some v \<Rightarrow> v | None \<Rightarrow> PyStr []) fieldnames))"

fun write_rows :: "'f lib \<Rightarrow> 'f book list \<Rightarrow> exn + string" where
  "write_rows lib [] = Inr []"
| "write_rows lib (book # rest) =
     (case dict_to_list book of
        Inl e \<Rightarrow> Inl e
      | Inr cells \<Rightarrow>
          (case write_rows lib rest of
             Inl e \<Rightarrow> Inl e
           | Inr text \<Rightarrow> Inr (csv_row lib cells @ text)))"

text \<open>
  How the destination behaves: \<open>open\<close> raises; or \<open>open\<close> succeeds and writing to the
  file (or closing it) raises; or the file takes everything written.
\<close>

datatype destination = Unopenable | Failing | Writable

text \<open>The body of the \<open>try\<close> of \<open>BookScraper.save_to_csv\<close>: the exception that leaves
  it, or the text of the file written.\<close>

definition write_csv :: "'f lib \<Rightarrow> destination \<Rightarrow> 'f book list \<Rightarrow> exn + string" where
  "write_csv lib dest books_data =
     (case dest of
        Unopenable \<Rightarrow> Inl OSError
      | Failing \<Rightarrow> (case write_rows lib books_data of Inl e \<Rightarrow> Inl e | Inr text \<Rightarrow> Inl OSError)
      | Writable \<Rightarrow>
          (case write_rows lib books_data of
             Inl e \<Rightarrow> Inl e
           | Inr text \<Rightarrow> Inr (csv_row lib (map PyStr fieldnames) @ text)))"

text \<open>\<open>BookScraper.save_to_csv\<close>: the returned flag and, when the write went through,
  the text of the file.\<close>

definition save_to_csv :: "'f lib \<Rightarrow> destination \<Rightarrow> 'f book list \<Rightarrow> bool \<times> string option" where
  "save_to_csv lib dest books_data =
     (if books_data = [] then (False, None)
      else (case write_csv lib dest books_data of
              Inl e \<Rightarrow> (False, None)
            | Inr text \<Rightarrow> (True, Some text)))"

text \<open>The number of lines of a text: its line feeds.\<close>

definition count_lines :: "string \<Rightarrow> nat" where
  "count_lines text = length (filter (\<lambda>c. c = LF) text)"

section \<open>The rounds of a crawl\<close>

text \<open>
  The state of the loop of \<open>scrape_all_pages\<close> after \<open>k\<close> full rounds, started with
  \<open>n0\<close> requests made, together with the books each round scraped, in the order of the
  rounds; \<open>None\<close> when the loop has ended before.
\<close>

fun crawl_after ::
  "'f lib \<Rightarrow> string \<Rightarrow> net \<Rightarrow> nat \<Rightarrow> nat \<Rightarrow> ('f book list list \<times> 'f crawl) option" where
  "crawl_after lib base_url net n0 0 = Some ([], (n0, [], Some base_url))"
| "crawl_after lib base_url net n0 (Suc k) =
     (case crawl_after lib base_url net n0 k of
        None \<Rightarrow> None
      | Some (pages, (n, all_books, current_url)) \<Rightarrow>
          if truthy current_url
          then (case crawl_round lib base_url net n all_books (the current_url) of
                  Continue st' \<Rightarrow>
                    Some (pages @ [fst (scrape_page lib base_url net n (the current_url))], st')
                | Break r \<Rightarrow> None)
          else None)"

section \<open>A small catalogue\<close>

text \<open>
  Two listing pages in the shape of the site the scraper is written for, and an instance
  of the library on the strings they hold. A float is named by its \<open>repr\<close>; \<open>urljoin\<close>
  is given for a reference that is a plain relative path: the base up to its last slash,
  then the reference (and the base itself for the empty reference).
\<close>

definition merge_relative :: "string \<Rightarrow> string \<Rightarrow> string" where
  "merge_relative base url =
     (if url = [] then base else rev (dropWhile (\<lambda>c. c \<noteq> CHR ''/'') (rev base)) @ url)"

definition shop_lib :: "string lib" where
  "shop_lib =
     \<lparr> urljoin = (\<lambda>base url. Some (merge_relative base url)),
       py_float = map_of [(''51.77'', ''51.77''), (''12.84'', ''12.84'')],
       str_float = (\<lambda>x. x) \<rparr>"

definition book_item ::
  "(string \<times> string) list \<Rightarrow> string \<Rightarrow> string \<Rightarrow> string \<Rightarrow> node" where
  "book_item link_attrs star price stock =
     Tag ''article'' [] [''product_pod'']
       [Tag ''p'' [] [''star-rating'', star] [],
        Tag ''h3'' [] [] [Tag ''a'' link_attrs [] [NavigableString ''...'']],
        Tag ''div'' [] [''product_price'']
          [Tag ''p'' [] [''price_color''] [NavigableString price],
           Tag ''p'' [] [''instock'', ''availability'']
             [Tag ''i'' [] [''icon-ok''] [], NavigableString stock]]]"

definition attic :: node where
  "attic =
     book_item [(''href'', ''catalogue/a-light-in-the-attic_1000/index.html''),
                (''title'', ''A Light in the Attic'')]
       ''Three'' (pound # ''51.77'') (LF # ''    In stock'' @ [LF])"

definition wake :: node where
  "wake =
     book_item [(''href'', ''in-her-wake_980/index.html''), (''title'', ''In Her Wake'')]
       ''One'' (pound # ''12.84'') (LF # ''    In stock'' @ [LF])"

text \<open>An item whose link has no \<open>title\<close> attribute, and one whose price cell is not a
  number.\<close>

definition untitled :: node where
  "untitled =
     book_item [(''href'', ''catalogue/a-light-in-the-attic_1000/index.html'')]
       ''Three'' (pound # ''51.77'') (LF # ''    In stock'' @ [LF])"

definition unpriced :: node where
  "unpriced =
     book_item [(''href'', ''catalogue/a-light-in-the-attic_1000/index.html''),
                (''title'', ''A Light in the Attic'')]
       ''Three'' ''N/A'' (LF # ''    In stock'' @ [LF])"

text \<open>
  Items with the same link as \<open>attic\<close>, a given text in the price cell and given
  availability nodes: one whose price and availability are padded with whitespace and
  whose availability text is in neither pattern, one out of stock, two whose availability
  is matched in lower case only, and one with no availability node.
\<close>

definition stock_item :: "string \<Rightarrow> node list \<Rightarrow> node" where
  "stock_item price stock_nodes =
     Tag ''article'' [] [''product_pod'']
       [Tag ''p'' [] [''star-rating'', ''Three''] [],
        Tag ''h3'' [] []
          [Tag ''a'' [(''href'', ''catalogue/a-light-in-the-attic_1000/index.html''),
                      (''title'', ''A Light in the Attic'')] [] [NavigableString ''...'']],
        Tag ''div'' [] [''product_price'']
          (Tag ''p'' [] [''price_color''] [NavigableString price] # stock_nodes)]"

definition padded :: node where
  "padded =
     stock_item ([LF, CHR '' '', CHR '' ''] @ pound # ''51.77'' @ [CHR '' '', LF])
       [Tag ''p'' [] [''instock'', ''availability'']
          [Tag ''i'' [] [''icon-ok''] [],
           NavigableString ([LF, CHR '' '', CHR '' ''] @ ''Ships in 3 days'' @ [CHR '' '', LF])]]"

definition sold_out :: node where
  "sold_out =
     stock_item (pound # ''51.77'')
       [Tag ''p'' [] [''outofstock'', ''availability'']
          [NavigableString ([LF, CHR '' ''] @ ''Out of stock'' @ [LF])]]"

definition shouting :: node where
  "shouting =
     stock_item (pound # ''51.77'')
       [Tag ''p'' [] [''instock'', ''availability''] [NavigableString ''INSTOCK now'']]"

definition shouting_out :: node where
  "shouting_out =
     stock_item (pound # ''51.77'')
       [Tag ''p'' [] [''outofstock'', ''availability''] [NavigableString ''OutOfStock'']]"

definition no_stock :: node where
  "no_stock = stock_item (pound # ''51.77'') []"

text \<open>The record of such an item, for a price and an availability.\<close>

definition shop_record :: "string pyval \<Rightarrow> string pyval \<Rightarrow> string book" where
  "shop_record price availability =
     [(''Title'', PyStr ''A Light in the Attic''), (''Price'', price),
      (''Rating'', PyInt 3), (''Availability'', availability),
      (''URL'', PyStr ''http://books.toscrape.com/catalogue/a-light-in-the-attic_1000/index.html'')]"

text \<open>
  An item whose price cell is not a number and whose link is an absolute reference with
  an unclosed bracket in its host, on which \<open>urljoin\<close> raises \<open>ValueError\<close>, and the
  library with that behaviour.
\<close>

definition bad_link :: node where
  "bad_link =
     book_item [(''href'', ''http://[bad''), (''title'', ''A Light in the Attic'')]
       ''Three'' ''N/A'' (LF # ''    In stock'' @ [LF])"

definition strict_lib :: "string lib" where
  "strict_lib =
     \<lparr> urljoin = (\<lambda>base url. if url = ''http://[bad'' then None
                               else Some (merge_relative base url)),
       py_float = map_of [(''51.77'', ''51.77''), (''12.84'', ''12.84'')],
       str_float = (\<lambda>x. x) \<rparr>"

definition pager :: "string \<Rightarrow> string \<Rightarrow> node" where
  "pager cls href = Tag ''ul'' [] [''pager''] [Tag ''li'' [] [cls] [Tag ''a'' [(''href'', href)] [] [NavigableString cls]]]"

definition shop_url :: string where
  "shop_url = ''http://books.toscrape.com/''"

definition page2_url :: string where
  "page2_url = ''http://books.toscrape.com/catalogue/page-2.html''"

definition page1 :: node where
  "page1 = Tag ''[document]'' [] [] [Tag ''section'' [] [] [attic, pager ''next'' ''catalogue/page-2.html'']]"

definition page2 :: node where
  "page2 = Tag ''[document]'' [] [] [Tag ''section'' [] [] [wake, pager ''previous'' ''../index.html'']]"

definition shop :: "string \<Rightarrow> node option" where
  "shop url = (if url = shop_url then Some page1 else if url = page2_url then Some page2 else None)"

text \<open>Three networks: one that always answers, one whose first request fails, and one
  on which only the first page can be reached.\<close>

definition steady_net :: net where
  "steady_net n url = shop url"

definition flaky_net :: net where
  "flaky_net n url = (if n = 0 then None else shop url)"

definition front_only_net :: net where
  "front_only_net n url = (if url = shop_url then Some page1 else None)"

definition attic_record :: "string book" where
  "attic_record =
     [(''Title'', PyStr ''A Light in the Attic''), (''Price'', PyFloat ''51.77''),
      (''Rating'', PyInt 3), (''Availability'', PyStr ''In stock''),
      (''URL'', PyStr ''http://books.toscrape.com/catalogue/a-light-in-the-attic_1000/index.html'')]"

definition wake_record :: "string book" where
  "wake_record =
     [(''Title'', PyStr ''In Her Wake''), (''Price'', PyFloat ''12.84''),
      (''Rating'', PyInt 1), (''Availability'', PyStr ''In stock''),
      (''URL'', PyStr ''http://books.toscrape.com/in-her-wake_980/index.html'')]"

text \<open>A record whose title runs over two lines.\<close>

definition two_line_record :: "string book" where
  "two_line_record =
     [(''Title'', PyStr (''In Her'' @ [CR, LF] @ ''Wake'')), (''Price'', PyFloat ''12.84''),
      (''Rating'', PyInt 1), (''Availability'', PyStr ''In stock''),
      (''URL'', PyStr ''http://books.toscrape.com/in-her-wake_980/index.html'')]"

text \<open>A record with a comma and quotes in its title and two null fields, and the file
  written for the two books of the catalogue followed by it.\<close>

definition quoted_record :: "string book" where
  "quoted_record =
     [(''Title'', PyStr (''Eat, Pray, '' @ [CHR 0x22] @ ''Love'' @ [CHR 0x22])),
      (''Price'', PyNone), (''Rating'', PyNone), (''Availability'', PyStr ''In stock''),
      (''URL'', PyStr ''http://books.toscrape.com/catalogue/eat-pray-love_1/index.html'')]"

definition shop_csv :: string where
  "shop_csv =
     ''Title,Price,Rating,Availability,URL'' @ [CR, LF]
     @ ''A Light in the Attic,51.77,3,In stock,http://books.toscrape.com/catalogue/a-light-in-the-attic_1000/index.html'' @ [CR, LF]
     @ ''In Her Wake,12.84,1,In stock,http://books.toscrape.com/in-her-wake_980/index.html'' @ [CR, LF]
     @ [CHR 0x22] @ ''Eat, Pray, '' @ [CHR 0x22, CHR 0x22] @ ''Love'' @ [CHR 0x22, CHR 0x22, CHR 0x22]
     @ '',,,In stock,http://books.toscrape.com/catalogue/eat-pray-love_1/index.html'' @ [CR, LF]"

text \<open>The file written for the record whose title runs over two lines.\<close>

definition two_line_csv :: string where
  "two_line_csv =
     ''Title,Price,Rating,Availability,URL'' @ [CR, LF]
     @ [CHR 0x22] @ ''In Her'' @ [CR, LF] @ ''Wake'' @ [CHR 0x22]
     @ '',12.84,1,In stock,http://books.toscrape.com/in-her-wake_980/index.html'' @ [CR, LF]"

section \<open>Facts about the model\<close>

text \<open>The executable substring test is the list library's \<open>sublist\<close>: \<open>sub\<close> occurs in
  \<open>s\<close> when \<open>s = ps @ sub @ ss\<close> for some \<open>ps\<close> and \<open>ss\<close>.\<close>

lemma substr_in_sublist: "substr_in sub s = sublist sub s"
  by (induction s) (auto simp: sublist_Cons_right)

lemma extract_book_data_eq:
  "extract_book_data lib base_url el =
     (case find_tag el ''h3'' of
        None \<Rightarrow> None
      | Some h \<Rightarrow>
          (case find_tag h ''a'' of
             None \<Rightarrow> None
           | Some a \<Rightarrow>
               (case urljoin lib base_url (get_attr a ''href'' []) of
                  None \<Rightarrow> None
                | Some u \<Rightarrow>
                    Some [(''Title'', PyStr (strip (get_attr a ''title'' []))),
                          (''Price'', price_field lib el),
                          (''Rating'', rating_field el),
                          (''Availability'', availability_field el),
                          (''URL'', PyStr u)])))"
  by (simp add: extract_book_data_def Let_def split: option.splits)

text \<open>What \<open>strip\<close> does to a text made of whitespace, a core that neither begins nor
  ends with whitespace, and whitespace; and \<open>replace\<close> by the empty string as a filter.\<close>

lemma strip_padded:
  assumes "list_all isspace ws1" and "list_all isspace ws2"
      and "core = [] \<or> (\<not> isspace (hd core) \<and> \<not> isspace (last core))"
  shows "strip (ws1 @ core @ ws2) = core"
proof (cases "core = []")
  case True
  from assms(1,2) have e: "dropWhile isspace (ws1 @ ws2) = []"
    by (simp add: dropWhile_eq_Nil_conv list_all_iff)
  have "strip (ws1 @ ws2) = []"
    unfolding strip_def e by simp
  with True show ?thesis
    by simp
next
  case False
  with assms(3) have h: "\<not> isspace (hd core)" and l: "\<not> isspace (last core)"
    by auto
  from False h have 1: "dropWhile isspace (ws1 @ core @ ws2) = core @ ws2"
    using assms(1) by (cases core) (simp_all add: dropWhile_append list_all_iff)
  from False l have 2: "dropWhile isspace (rev ws2 @ rev core) = rev core"
    using assms(2) by (cases core rule: rev_cases) (simp_all add: dropWhile_append list_all_iff)
  show ?thesis
    by (simp add: strip_def 1 2)
qed

lemma replace_char_filter: "replace_char c [] s = filter (\<lambda>x. x \<noteq> c) s"
  by (induction s) (simp_all add: replace_char_def)

text \<open>The quoting rule of the CSV writer, spelled out.\<close>

lemma csv_field_eq:
  "csv_field s =
     (if \<exists>c\<in>set s. c = CHR '','' \<or> c = CHR 0x22 \<or> c = CR \<or> c = LF
      then [CHR 0x22] @ concat (map (\<lambda>c. if c = CHR 0x22 then [CHR 0x22, CHR 0x22] else [c]) s)
           @ [CHR 0x22]
      else s)"
  by (simp add: csv_field_def needs_quotes_def replace_char_def list_ex_iff)

section \<open>The extractor's records\<close>

text \<open>
  Claim C1, as the specification has it: the extractor emits a record only when it has a
  non-empty title, and every record it returns has a non-empty title string.
  The source tests that the title link exists, not that a title was read: for an item
  whose link carries no \<open>title\<close> attribute, \<open>get('title', '')\<close> gives the empty string
  and the record is emitted with the title \<open>''\<close>. The theorem runs the extractor on such
  an item.
\<close>

theorem untitled_item_is_emitted:
  "collect_books shop_lib shop_url [untitled] =
     [[(''Title'', PyStr []), (''Price'', PyFloat ''51.77''), (''Rating'', PyInt 3),
       (''Availability'', PyStr ''In stock''),
       (''URL'', PyStr ''http://books.toscrape.com/catalogue/a-light-in-the-attic_1000/index.html'')]]"
  by code_simp

text \<open>
  Claim C2, as the specification has it: the URL of a record is the link's \<open>href\<close>
  resolved against the address of the page the item appears on. The source resolves it
  against the address the crawl started from, whatever page the item is on, while the
  link to the next page is resolved against the current page. The theorem scrapes the
  second page of the catalogue: the record's URL is the \<open>href\<close> joined to the start
  address, and joining it to the page's own address gives another URL.
\<close>

theorem second_page_link_resolved_against_start_url:
  "fst (scrape_page shop_lib shop_url steady_net 2 page2_url) = [wake_record]
   \<and> map_of wake_record ''URL'' = Some (PyStr ''http://books.toscrape.com/in-her-wake_980/index.html'')
   \<and> urljoin shop_lib page2_url ''in-her-wake_980/index.html''
       = Some ''http://books.toscrape.com/catalogue/in-her-wake_980/index.html''"
  by code_simp

text \<open>
  Claim C4, amended: the rating is decided by a case-sensitive substring match, at any
  position of the class string, of the capitalised words One, Two, Three, Four, Five,
  tried in this order and mapped to 1..5; the class string of the tokens \<open>star-rating\<close>
  and \<open>Three\<close> gives 3; and the rating is null exactly when none of the five capitalised
  words occurs in the class string.
\<close>

theorem extract_rating_words:
  "extract_rating rating_class =
     (if sublist ''One'' rating_class then Some 1
      else if sublist ''Two'' rating_class then Some 2
      else if sublist ''Three'' rating_class then Some 3
      else if sublist ''Four'' rating_class then Some 4
      else if sublist ''Five'' rating_class then Some 5
      else None)
   \<and> (extract_rating rating_class = None) =
       (\<not> sublist ''One'' rating_class \<and> \<not> sublist ''Two'' rating_class
        \<and> \<not> sublist ''Three'' rating_class \<and> \<not> sublist ''Four'' rating_class
        \<and> \<not> sublist ''Five'' rating_class)
   \<and> extract_rating (join '' '' [''star-rating'', ''Three'']) = Some 3"
  by (simp add: extract_rating_def rating_map_def substr_in_sublist [symmetric])

text \<open>
  Claim C4 as stated asks for a match that ignores case. The class string
  \<open>star-rating three\<close> holds the word in lower case, which does match when case is
  ignored, and the source gives it no rating.
\<close>

theorem extract_rating_lowercase_counterexample:
  "substr_in (lower ''Three'') (lower ''star-rating three'')
   \<and> extract_rating ''star-rating three'' = None"
  by code_simp

text \<open>
  Claim C5, amended: for every item with a price node, a record is emitted exactly when
  the item has a title link whose \<open>href\<close> is resolved by \<open>urljoin\<close> without an error,
  whatever the price cell holds. In the record emitted, Price is the float parsed from
  the text of the price node with the whitespace at both ends trimmed and every pound
  sign removed, and null when that parse fails; the other four fields do not depend on
  the parse. Trimming a text made of whitespace, a core that neither begins nor ends
  with whitespace, and more whitespace leaves the core; for the padded text of a pound
  sign and \<open>51.77\<close> the string parsed is \<open>51.77\<close>.
\<close>

theorem price_parsed_or_null:
  assumes "find_tag_class el ''p'' ''price_color'' = Some price_tag"
  shows "extract_book_data lib base_url el =
           (case find_tag el ''h3'' of
              None \<Rightarrow> None
            | Some h3 \<Rightarrow>
                (case find_tag h3 ''a'' of
                   None \<Rightarrow> None
                 | Some a \<Rightarrow>
                     (case urljoin lib base_url (get_attr a ''href'' []) of
                        None \<Rightarrow> None
                      | Some url \<Rightarrow>
                          Some [(''Title'', PyStr (strip (get_attr a ''title'' []))),
                                (''Price'',
                                   case py_float lib
                                          (filter (\<lambda>c. c \<noteq> pound) (strip (get_text price_tag))) of
                                     Some x \<Rightarrow> PyFloat x
                                   | None \<Rightarrow> PyNone),
                                (''Rating'', rating_field el),
                                (''Availability'', availability_field el),
                                (''URL'', PyStr url)])))
         \<and> (list_all isspace ws1 \<and> list_all isspace ws2
              \<and> (core = [] \<or> (\<not> isspace (hd core) \<and> \<not> isspace (last core)))
              \<longrightarrow> strip (ws1 @ core @ ws2) = core)
         \<and> filter (\<lambda>c. c \<noteq> pound)
              (strip ([LF, CHR '' '', CHR '' ''] @ pound # ''51.77'' @ [CHR '' '', LF])) = ''51.77''"
proof -
  have pf: "price_field lib el =
      (case py_float lib (filter (\<lambda>c. c \<noteq> pound) (strip (get_text price_tag))) of
         Some x \<Rightarrow> PyFloat x | None \<Rightarrow> PyNone)"
    using assms by (simp add: price_field_def replace_char_filter)
  have 1: "extract_book_data lib base_url el =
           (case find_tag el ''h3'' of
              None \<Rightarrow> None
            | Some h3 \<Rightarrow>
                (case find_tag h3 ''a'' of
                   None \<Rightarrow> None
                 | Some a \<Rightarrow>
                     (case urljoin lib base_url (get_attr a ''href'' []) of
                        None \<Rightarrow> None
                      | Some url \<Rightarrow>
                          Some [(''Title'', PyStr (strip (get_attr a ''title'' []))),
                                (''Price'',
                                   case py_float lib
                                          (filter (\<lambda>c. c \<noteq> pound) (strip (get_text price_tag))) of
                                     Some x \<Rightarrow> PyFloat x
                                   | None \<Rightarrow> PyNone),
                                (''Rating'', rating_field el),
                                (''Availability'', availability_field el),
                                (''URL'', PyStr url)])))"
    unfolding extract_book_data_eq pf by (rule refl)
  have 2: "filter (\<lambda>c. c \<noteq> pound)
      (strip ([LF, CHR '' '', CHR '' ''] @ pound # ''51.77'' @ [CHR '' '', LF])) = ''51.77''"
    by code_simp
  from 1 2 strip_padded [of ws1 ws2 core] show ?thesis
    by blast
qed

theorem price_parsed_or_null_witness:
  "find_tag_class padded ''p'' ''price_color'' =
     Some (Tag ''p'' [] [''price_color'']
            [NavigableString ([LF, CHR '' '', CHR '' ''] @ pound # ''51.77'' @ [CHR '' '', LF])])
   \<and> extract_book_data shop_lib shop_url padded =
       Some (shop_record (PyFloat ''51.77'') (PyStr ''Ships in 3 days''))
   \<and> find_tag_class unpriced ''p'' ''price_color'' =
       Some (Tag ''p'' [] [''price_color''] [NavigableString ''N/A''])
   \<and> py_float shop_lib ''N/A'' = None
   \<and> extract_book_data shop_lib shop_url unpriced =
       Some (shop_record PyNone (PyStr ''In stock''))
   \<and> list_all isspace [LF, CHR '' '', CHR '' ''] \<and> list_all isspace [CHR '' '', LF]
   \<and> strip ([LF, CHR '' '', CHR '' ''] @ (pound # ''51.77'') @ [CHR '' '', LF]) = pound # ''51.77''"
proof -
  have p: "find_tag_class padded ''p'' ''price_color'' =
      Some (Tag ''p'' [] [''price_color'']
             [NavigableString ([LF, CHR '' '', CHR '' ''] @ pound # ''51.77'' @ [CHR '' '', LF])])"
    by code_simp
  have q: "find_tag_class unpriced ''p'' ''price_color'' =
      Some (Tag ''p'' [] [''price_color''] [NavigableString ''N/A''])"
    by code_simp
  have f: "py_float shop_lib ''N/A'' = None"
    by code_simp
  have 1: "extract_book_data shop_lib shop_url padded =
      Some (shop_record (PyFloat ''51.77'') (PyStr ''Ships in 3 days''))"
    by (rule trans [OF price_parsed_or_null [OF p, THEN conjunct1]]) code_simp
  have 2: "extract_book_data shop_lib shop_url unpriced =
      Some (shop_record PyNone (PyStr ''In stock''))"
    by (rule trans [OF price_parsed_or_null [OF q, THEN conjunct1]]) code_simp
  have w1: "list_all isspace [LF, CHR '' '', CHR '' '']" and w2: "list_all isspace [CHR '' '', LF]"
    by code_simp+
  have c: "pound # ''51.77'' = [] \<or>
      (\<not> isspace (hd (pound # ''51.77'')) \<and> \<not> isspace (last (pound # ''51.77'')))"
    by code_simp
  from price_parsed_or_null [OF p, THEN conjunct2, THEN conjunct1,
      of "[LF, CHR '' '', CHR '' '']" "[CHR '' '', LF]" "pound # ''51.77''"] w1 w2 c
  have 3: "strip ([LF, CHR '' '', CHR '' ''] @ (pound # ''51.77'') @ [CHR '' '', LF]) = pound # ''51.77''"
    by blast
  from p q f 1 2 w1 w2 3 show ?thesis
    by blast
qed

text \<open>
  Claim C5 as stated has the record emitted whenever the price cannot be parsed. For an
  item with a title, a price cell that is not a number and a link on which \<open>urljoin\<close>
  raises, the handler of the enclosing \<open>try\<close> returns \<open>None\<close> and the page yields no
  record for the item.
\<close>

theorem unparsable_price_with_bad_link_counterexample:
  "find_tag_class bad_link ''p'' ''price_color'' =
     Some (Tag ''p'' [] [''price_color''] [NavigableString ''N/A''])
   \<and> py_float strict_lib ''N/A'' = None
   \<and> urljoin strict_lib shop_url ''http://[bad'' = None
   \<and> extract_book_data strict_lib shop_url bad_link = None
   \<and> collect_books strict_lib shop_url [bad_link] = []"
  by code_simp

text \<open>
  Claim C6: the Availability of every record is null when the item has neither an in-stock
  nor an out-of-stock node; otherwise, with \<open>raw\<close> the text of that node (the in-stock
  one when there is one) with the whitespace at both ends trimmed, it is exactly
  \<open>In stock\<close> when \<open>raw\<close> holds \<open>In stock\<close> or, in lower case, \<open>instock\<close>; else exactly
  \<open>Out of stock\<close> when \<open>raw\<close> holds \<open>Out of stock\<close> or, in lower case, \<open>outofstock\<close>;
  else \<open>raw\<close> itself. Trimming a text made of whitespace, a core that neither begins
  nor ends with whitespace, and more whitespace leaves the core, and lower case turns
  the capitals A to Z into a to z and leaves small letters, digits and blanks alone.
\<close>

theorem availability_one_of_four:
  assumes "extract_book_data lib base_url el = Some book_data"
  shows "map_of book_data ''Availability'' =
           Some (case (case find_tag_class el ''p'' ''instock'' of
                         Some t \<Rightarrow> Some t
                       | None \<Rightarrow> find_tag_class el ''p'' ''outofstock'') of
                   None \<Rightarrow> PyNone
                 | Some t \<Rightarrow>
                     (let raw = strip (get_text t)
                      in if sublist ''In stock'' raw \<or> sublist ''instock'' (lower raw)
                         then PyStr ''In stock''
                         else if sublist ''Out of stock'' raw \<or> sublist ''outofstock'' (lower raw)
                         then PyStr ''Out of stock''
                         else PyStr raw))
         \<and> (list_all isspace ws1 \<and> list_all isspace ws2
              \<and> (core = [] \<or> (\<not> isspace (hd core) \<and> \<not> isspace (last core)))
              \<longrightarrow> strip (ws1 @ core @ ws2) = core)
         \<and> lower (s1 @ s2) = lower s1 @ lower s2
         \<and> lower ''ABCDEFGHIJKLMNOPQRSTUVWXYZ'' = ''abcdefghijklmnopqrstuvwxyz''
         \<and> lower ''abcdefghijklmnopqrstuvwxyz 0123456789'' = ''abcdefghijklmnopqrstuvwxyz 0123456789''"
proof -
  have "map_of book_data ''Availability'' = Some (availability_field el)"
    using assms by (simp add: extract_book_data_eq split: option.splits) auto
  then have 1: "map_of book_data ''Availability'' =
           Some (case (case find_tag_class el ''p'' ''instock'' of
                         Some t \<Rightarrow> Some t
                       | None \<Rightarrow> find_tag_class el ''p'' ''outofstock'') of
                   None \<Rightarrow> PyNone
                 | Some t \<Rightarrow>
                     (let raw = strip (get_text t)
                      in if sublist ''In stock'' raw \<or> sublist ''instock'' (lower raw)
                         then PyStr ''In stock''
                         else if sublist ''Out of stock'' raw \<or> sublist ''outofstock'' (lower raw)
                         then PyStr ''Out of stock''
                         else PyStr raw))"
    by (simp add: availability_field_def availability_tag_def normalize_availability_def
        substr_in_sublist Let_def split: option.splits)
  have 2: "lower (s1 @ s2) = lower s1 @ lower s2"
    by (simp add: lower_def)
  have 3: "lower ''ABCDEFGHIJKLMNOPQRSTUVWXYZ'' = ''abcdefghijklmnopqrstuvwxyz''"
    by code_simp
  have 4: "lower ''abcdefghijklmnopqrstuvwxyz 0123456789'' = ''abcdefghijklmnopqrstuvwxyz 0123456789''"
    by code_simp
  from 1 2 3 4 strip_padded [of ws1 ws2 core] show ?thesis
    by blast
qed

theorem availability_one_of_four_witness:
  "extract_book_data shop_lib shop_url attic = Some attic_record
   \<and> map_of attic_record ''Availability'' = Some (PyStr ''In stock'')
   \<and> extract_book_data shop_lib shop_url sold_out =
       Some (shop_record (PyFloat ''51.77'') (PyStr ''Out of stock''))
   \<and> map_of (shop_record (PyFloat ''51.77'') (PyStr ''Out of stock'')) ''Availability'' =
       Some (PyStr ''Out of stock'')
   \<and> extract_book_data shop_lib shop_url padded =
       Some (shop_record (PyFloat ''51.77'') (PyStr ''Ships in 3 days''))
   \<and> map_of (shop_record (PyFloat ''51.77'') (PyStr ''Ships in 3 days'')) ''Availability'' =
       Some (PyStr ''Ships in 3 days'')
   \<and> extract_book_data shop_lib shop_url no_stock = Some (shop_record (PyFloat ''51.77'') PyNone)
   \<and> map_of (shop_record (PyFloat ''51.77'') PyNone) ''Availability'' = Some PyNone
   \<and> extract_book_data shop_lib shop_url shouting =
       Some (shop_record (PyFloat ''51.77'') (PyStr ''In stock''))
   \<and> extract_book_data shop_lib shop_url shouting_out =
       Some (shop_record (PyFloat ''51.77'') (PyStr ''Out of stock''))
   \<and> strip ([LF, CHR '' '', CHR '' ''] @ ''Ships in 3 days'' @ [CHR '' '', LF]) = ''Ships in 3 days''"
proof -
  have a: "extract_book_data shop_lib shop_url attic = Some attic_record"
    by code_simp
  have b: "extract_book_data shop_lib shop_url sold_out =
      Some (shop_record (PyFloat ''51.77'') (PyStr ''Out of stock''))"
    by code_simp
  have c: "extract_book_data shop_lib shop_url padded =
      Some (shop_record (PyFloat ''51.77'') (PyStr ''Ships in 3 days''))"
    by code_simp
  have d: "extract_book_data shop_lib shop_url no_stock = Some (shop_record (PyFloat ''51.77'') PyNone)"
    by code_simp
  have e: "extract_book_data shop_lib shop_url shouting =
      Some (shop_record (PyFloat ''51.77'') (PyStr ''In stock''))"
    by code_simp
  have f: "extract_book_data shop_lib shop_url shouting_out =
      Some (shop_record (PyFloat ''51.77'') (PyStr ''Out of stock''))"
    by code_simp
  have a': "map_of attic_record ''Availability'' = Some (PyStr ''In stock'')"
    by (rule trans [OF availability_one_of_four [OF a, THEN conjunct1]]) code_simp
  have b': "map_of (shop_record (PyFloat ''51.77'') (PyStr ''Out of stock'')) ''Availability'' =
      Some (PyStr ''Out of stock'')"
    by (rule trans [OF availability_one_of_four [OF b, THEN conjunct1]]) code_simp
  have c': "map_of (shop_record (PyFloat ''51.77'') (PyStr ''Ships in 3 days'')) ''Availability'' =
      Some (PyStr ''Ships in 3 days'')"
    by (rule trans [OF availability_one_of_four [OF c, THEN conjunct1]]) code_simp
  have d': "map_of (shop_record (PyFloat ''51.77'') PyNone) ''Availability'' = Some PyNone"
    by (rule trans [OF availability_one_of_four [OF d, THEN conjunct1]]) code_simp
  have w1: "list_all isspace [LF, CHR '' '', CHR '' '']" and w2: "list_all isspace [CHR '' '', LF]"
    by code_simp+
  have k: "''Ships in 3 days'' = [] \<or>
      (\<not> isspace (hd ''Ships in 3 days'') \<and> \<not> isspace (last ''Ships in 3 days''))"
    by code_simp
  from availability_one_of_four [OF c, THEN conjunct2, THEN conjunct1,
      of "[LF, CHR '' '', CHR '' '']" "[CHR '' '', LF]" "''Ships in 3 days''"] w1 w2 k
  have s: "strip ([LF, CHR '' '', CHR '' ''] @ ''Ships in 3 days'' @ [CHR '' '', LF]) = ''Ships in 3 days''"
    by blast
  from a a' b b' c c' d d' e f s show ?thesis
    by blast
qed

text \<open>The shape of every record the extractor returns, and what the CSV writer makes of
  a dictionary of that shape.\<close>

lemma five_keys_row:
  "dict_to_list [(''Title'', t), (''Price'', p), (''Rating'', r), (''Availability'', a), (''URL'', u)]
     = Inr [t, p, r, a, u]"
  by (simp add: dict_to_list_def fieldnames_def)

lemma extract_book_data_shape:
  "extract_book_data lib base_url el = Some book_data
     \<Longrightarrow> \<exists>t p r a u. book_data =
           [(''Title'', t), (''Price'', p), (''Rating'', r), (''Availability'', a), (''URL'', u)]"
  by (simp add: extract_book_data_eq split: option.splits) blast

text \<open>
  Claim C10: every record the extractor returns has exactly the keys Title, Price, Rating,
  Availability and URL, each once and in this order, which is the serializer's list of
  columns; the writer's check for keys outside its columns never fires on it.
\<close>

theorem extract_book_data_keys:
  assumes "extract_book_data lib base_url el = Some book_data"
  shows "map fst book_data = [''Title'', ''Price'', ''Rating'', ''Availability'', ''URL'']
         \<and> map fst book_data = fieldnames
         \<and> dict_to_list book_data = Inr (map snd book_data)"
proof -
  from extract_book_data_shape [OF assms] obtain t p r a u where
    b: "book_data = [(''Title'', t), (''Price'', p), (''Rating'', r), (''Availability'', a), (''URL'', u)]"
    by blast
  have "dict_to_list book_data = Inr (map snd book_data)"
    unfolding b five_keys_row by simp
  moreover have "map fst book_data = fieldnames"
    unfolding b fieldnames_def by simp
  ultimately show ?thesis
    by (simp add: fieldnames_def)
qed

theorem extract_book_data_keys_witness:
  "extract_book_data shop_lib shop_url attic = Some attic_record
   \<and> map fst attic_record = [''Title'', ''Price'', ''Rating'', ''Availability'', ''URL'']
   \<and> map fst attic_record = fieldnames
   \<and> dict_to_list attic_record = Inr (map snd attic_record)"
proof -
  have h: "extract_book_data shop_lib shop_url attic = Some attic_record"
    by code_simp
  from h extract_book_data_keys [OF h] show ?thesis
    by blast
qed

section \<open>The crawl\<close>

text \<open>One unfolding of the loop for each way a round can go, the loop's state after
  \<open>k\<close> rounds, and what that state holds.\<close>

lemma scrape_loop_round:
  "truthy cur \<Longrightarrow> crawl_round lib base_url net n all_books (the cur) = Continue st'
     \<Longrightarrow> scrape_loop lib base_url net (n, all_books, cur) = scrape_loop lib base_url net st'"
  by (subst scrape_loop.simps) simp

lemma scrape_loop_break:
  "truthy cur \<Longrightarrow> crawl_round lib base_url net n all_books (the cur) = Break r
     \<Longrightarrow> scrape_loop lib base_url net (n, all_books, cur) = Some r"
  by (subst scrape_loop.simps) simp

lemma scrape_loop_done:
  "\<not> truthy cur \<Longrightarrow> scrape_loop lib base_url net (n, all_books, cur) = Some (all_books, n)"
  by (subst scrape_loop.simps) simp

lemma crawl_round_eq:
  "crawl_round lib base_url net n all_books url =
     (case net (Suc n) url of
        Some soup \<Rightarrow>
          Continue (Suc (Suc n), all_books @ fst (scrape_page lib base_url net n url),
                    get_next_page_url lib soup url)
      | None \<Rightarrow> Break (all_books @ fst (scrape_page lib base_url net n url), Suc (Suc n)))"
  by (simp add: crawl_round_def scrape_page_def get_page_def split: option.splits)

lemma scrape_page_failed:
  "net n url = None \<Longrightarrow> scrape_page lib base_url net n url = ([], Suc n)"
  by (simp add: scrape_page_def get_page_def)

lemma crawl_after_loop:
  "crawl_after lib base_url net n0 k = Some (pages, st)
     \<Longrightarrow> scrape_all_pages lib base_url net n0 = scrape_loop lib base_url net st"
proof (induction k arbitrary: pages st)
  case 0
  then show ?case by (simp add: scrape_all_pages_def)
next
  case (Suc k)
  then show ?case
    by (auto split: option.splits prod.splits if_splits round.splits simp: scrape_loop_round)
qed

lemma crawl_after_invariant:
  "crawl_after lib base_url net n0 k = Some (pages, (n, all_books, cur))
     \<Longrightarrow> all_books = concat pages \<and> n = n0 + 2 * k \<and> length pages = k"
proof (induction k arbitrary: pages n all_books cur)
  case 0
  then show ?case by simp
next
  case (Suc k)
  then show ?case
    by (auto simp: crawl_round_eq split: option.splits prod.splits if_splits round.splits)
qed

text \<open>
  Claim C7: when a crawl has come to a page (after any number of rounds) and the page it
  gets when it asks for the next link holds no \<open>next\<close> indicator, the crawl returns after
  this page, and what it returns is the concatenation, in the order of the visits, of the
  books scraped from the pages visited, this page's last.
\<close>

theorem crawl_stops_without_next:
  assumes "crawl_after lib base_url net n0 k = Some (pages, (n, all_books, Some url))"
      and "url \<noteq> []"
      and "net (Suc n) url = Some soup"
      and "find_tag_class soup ''li'' ''next'' = None"
  shows "scrape_all_pages lib base_url net n0 =
           Some (concat (pages @ [fst (scrape_page lib base_url net n url)]), Suc (Suc n))"
proof -
  have "get_next_page_url lib soup url = None"
    using assms(4) by (simp add: get_next_page_url_def)
  then have "crawl_round lib base_url net n all_books url =
      Continue (Suc (Suc n), all_books @ fst (scrape_page lib base_url net n url), None)"
    using assms(3) by (simp add: crawl_round_eq)
  then have "scrape_loop lib base_url net (n, all_books, Some url) =
      Some (all_books @ fst (scrape_page lib base_url net n url), Suc (Suc n))"
    using assms(2) by (simp add: scrape_loop_round scrape_loop_done)
  moreover have "all_books = concat pages"
    using crawl_after_invariant [OF assms(1)] by simp
  ultimately show ?thesis
    using crawl_after_loop [OF assms(1)] by simp
qed

theorem crawl_stops_without_next_witness:
  "crawl_after shop_lib shop_url steady_net 0 1 = Some ([[attic_record]], (2, [attic_record], Some page2_url))
   \<and> page2_url \<noteq> []
   \<and> steady_net 3 page2_url = Some page2
   \<and> find_tag_class page2 ''li'' ''next'' = None
   \<and> scrape_all_pages shop_lib shop_url steady_net 0 = Some ([attic_record, wake_record], 4)"
proof -
  have a: "crawl_after shop_lib shop_url steady_net 0 1 =
      Some ([[attic_record]], (2, [attic_record], Some page2_url))"
    by code_simp
  have b: "page2_url \<noteq> []"
    by code_simp
  have c: "steady_net (Suc 2) page2_url = Some page2"
    by code_simp
  have d: "find_tag_class page2 ''li'' ''next'' = None"
    by code_simp
  have e: "fst (scrape_page shop_lib shop_url steady_net 2 page2_url) = [wake_record]"
    by code_simp
  from crawl_stops_without_next [OF a b c d] a b c d show ?thesis
    unfolding e by (simp add: eval_nat_numeral)
qed

text \<open>
  Claim C3, amended: the crawl requests every page twice, once to scrape it and once to
  find the next link. At any page where the second request fails, the crawl halts, and
  its result is the records accumulated from the earlier pages followed by those the
  first request of this page gave; when the first request of this page fails too, the
  result is exactly the records accumulated before it. For the start page (no round
  made yet) with both requests failing, that is the empty sequence.
\<close>

theorem crawl_halts_when_page_unreachable:
  assumes "crawl_after lib base_url net n0 k = Some (pages, (n, all_books, Some url))"
      and "url \<noteq> []"
      and "net (Suc n) url = None"
  shows "scrape_all_pages lib base_url net n0 =
           Some (concat pages @ fst (scrape_page lib base_url net n url), Suc (Suc n))
         \<and> (net n url = None \<longrightarrow>
              scrape_all_pages lib base_url net n0 = Some (concat pages, Suc (Suc n)))"
proof -
  have "crawl_round lib base_url net n all_books url =
      Break (all_books @ fst (scrape_page lib base_url net n url), Suc (Suc n))"
    using assms(3) by (simp add: crawl_round_eq)
  then have "scrape_loop lib base_url net (n, all_books, Some url) =
      Some (all_books @ fst (scrape_page lib base_url net n url), Suc (Suc n))"
    using assms(2) by (simp add: scrape_loop_break)
  moreover have "all_books = concat pages"
    using crawl_after_invariant [OF assms(1)] by simp
  ultimately have "scrape_all_pages lib base_url net n0 =
      Some (concat pages @ fst (scrape_page lib base_url net n url), Suc (Suc n))"
    using crawl_after_loop [OF assms(1)] by simp
  then show ?thesis
    by (simp add: scrape_page_failed)
qed

theorem crawl_halts_when_page_unreachable_witness:
  "crawl_after shop_lib shop_url front_only_net 0 1 = Some ([[attic_record]], (2, [attic_record], Some page2_url))
   \<and> page2_url \<noteq> []
   \<and> front_only_net 2 page2_url = None
   \<and> front_only_net 3 page2_url = None
   \<and> scrape_all_pages shop_lib shop_url front_only_net 0 = Some ([attic_record], 4)"
proof -
  have a: "crawl_after shop_lib shop_url front_only_net 0 1 =
      Some ([[attic_record]], (2, [attic_record], Some page2_url))"
    by code_simp
  have b: "page2_url \<noteq> []"
    by code_simp
  have c: "front_only_net (Suc 2) page2_url = None"
    by code_simp
  have c': "front_only_net 3 page2_url = None"
    by code_simp
  have d: "front_only_net 2 page2_url = None"
    by code_simp
  from crawl_halts_when_page_unreachable [OF a b c] d
  have "scrape_all_pages shop_lib shop_url front_only_net 0 =
      Some (concat [[attic_record]], Suc (Suc 2))"
    by blast
  then have "scrape_all_pages shop_lib shop_url front_only_net 0 = Some ([attic_record], 4)"
    by simp
  with a b c' d show ?thesis
    by blast
qed

text \<open>
  Claim C3 as stated has the crawl halt, without a retry, as soon as a fetch of the
  current address fails. On a network whose very first request fails and which answers
  from then on, the second request for the start address succeeds: the crawl loses the
  first page's books, goes on to the second page and returns that page's books.
\<close>

theorem crawl_goes_on_after_failed_fetch:
  "flaky_net 0 shop_url = None
   \<and> scrape_all_pages shop_lib shop_url flaky_net 0 = Some ([wake_record], 4)"
  by code_simp

section \<open>The serializer's file\<close>

lemma write_rows_ok:
  "(\<exists>text. write_rows lib books = Inr text) =
     list_all (\<lambda>book. list_all (\<lambda>k. k \<in> set fieldnames) (map fst book)) books"
proof (induction books)
  case Nil
  show ?case by simp
next
  case (Cons book rest)
  have "(\<exists>cells. dict_to_list book = Inr cells) = list_all (\<lambda>k. k \<in> set fieldnames) (map fst book)"
    by (simp add: dict_to_list_def list_ex_iff list_all_iff)
  with Cons show ?case
    by (auto split: sum.splits)
qed

text \<open>
  Claim C8, amended: the serializer returns failure exactly when the record sequence is
  empty, or the destination cannot be opened, or writing to it fails, or a record has a
  key outside the five columns; whatever exception leaves the body of its \<open>try\<close>, the
  result is the flag \<open>False\<close>, and without one it is \<open>True\<close> for a non-empty sequence.
\<close>

theorem save_to_csv_fails_iff:
  "(\<not> fst (save_to_csv lib dest books_data)) =
     (books_data = [] \<or> dest = Unopenable \<or> dest = Failing
      \<or> list_ex (\<lambda>book. list_ex (\<lambda>k. k \<notin> set fieldnames) (map fst book)) books_data)
   \<and> (case write_csv lib dest books_data of
         Inl e \<Rightarrow> save_to_csv lib dest books_data = (False, None)
       | Inr text \<Rightarrow> save_to_csv lib dest books_data =
           (if books_data = [] then (False, None) else (True, Some text)))"
proof -
  have ex: "list_ex (\<lambda>book. list_ex (\<lambda>k. k \<notin> set fieldnames) (map fst book)) books_data =
      (\<not> list_all (\<lambda>book. list_all (\<lambda>k. k \<in> set fieldnames) (map fst book)) books_data)"
    by (simp add: list_ex_iff list_all_iff)
  have "(\<exists>text. write_csv lib dest books_data = Inr text) =
      (dest = Writable \<and> (\<exists>text. write_rows lib books_data = Inr text))"
    by (cases dest) (auto simp: write_csv_def split: sum.splits)
  then have "(\<exists>text. write_csv lib dest books_data = Inr text) =
      (dest \<noteq> Unopenable \<and> dest \<noteq> Failing
       \<and> \<not> list_ex (\<lambda>book. list_ex (\<lambda>k. k \<notin> set fieldnames) (map fst book)) books_data)"
    unfolding ex write_rows_ok by (cases dest) simp_all
  moreover have "(\<not> fst (save_to_csv lib dest books_data)) =
      (books_data = [] \<or> \<not> (\<exists>text. write_csv lib dest books_data = Inr text))"
    by (auto simp: save_to_csv_def split: sum.splits)
  ultimately show ?thesis
    by (auto simp: save_to_csv_def split: sum.splits)
qed

text \<open>
  Claim C8 as stated has failure exactly for an empty sequence or a destination that
  cannot be opened. For one record and a destination that opens and then fails on
  writing, the serializer returns failure as well.
\<close>

theorem save_to_csv_write_failure_counterexample:
  "[attic_record] \<noteq> [] \<and> Failing \<noteq> Unopenable
   \<and> save_to_csv shop_lib Failing [attic_record] = (False, None)"
  by code_simp

lemma count_lines_append: "count_lines (a @ b) = count_lines a + count_lines b"
  by (simp add: count_lines_def)

lemma count_lines_csv_field: "count_lines (csv_field s) = count_lines s"
proof -
  have "count_lines (replace_char (CHR 0x22) [CHR 0x22, CHR 0x22] s) = count_lines s"
    by (induction s) (simp_all add: replace_char_def count_lines_def LF_def)
  then show ?thesis
    by (simp add: csv_field_def count_lines_append) (simp add: count_lines_def LF_def)
qed

lemma count_lines_Nil: "count_lines [] = 0"
  by (simp add: count_lines_def)

lemma count_lines_join:
  "count_lines sep = 0 \<Longrightarrow> count_lines (join sep xs) = sum_list (map count_lines xs)"
  by (induction sep xs rule: join.induct) (simp_all add: count_lines_append count_lines_Nil)

lemma count_lines_none: "(count_lines s = 0) = (LF \<notin> set s)"
  by (auto simp: count_lines_def filter_empty_conv)

lemma write_rows_text:
  "write_rows lib books = Inr out \<Longrightarrow>
     out = concat (map (\<lambda>book. csv_row lib
        (map (\<lambda>key. case map_of book key of Some v \<Rightarrow> v | None \<Rightarrow> PyStr []) fieldnames)) books)"
proof (induction books arbitrary: out)
  case Nil
  then show ?case by simp
next
  case (Cons book rest)
  then show ?case
    by (auto simp: dict_to_list_def split: sum.splits if_splits)
qed

lemma header_row:
  "csv_row lib (map PyStr fieldnames) = ''Title,Price,Rating,Availability,URL'' @ [CR, LF]"
  by (simp add: csv_row_def fieldnames_def csv_field_def needs_quotes_def CR_def LF_def)

lemma count_lines_row:
  assumes "list_all (\<lambda>v. LF \<notin> set (field_str lib v)) cells"
  shows "count_lines (csv_row lib cells) = 1"
proof -
  have "sum_list (map count_lines (map (\<lambda>v. csv_field (field_str lib v)) cells)) = 0"
    using assms
    by (induction cells) (simp_all add: count_lines_csv_field count_lines_none)
  moreover have "count_lines '','' = 0" and "count_lines [CR, LF] = 1"
    by (simp_all add: count_lines_def CR_def LF_def)
  ultimately show ?thesis
    by (simp add: csv_row_def count_lines_append count_lines_join)
qed

lemma count_lines_rows:
  assumes "list_all (\<lambda>cells. list_all (\<lambda>v. LF \<notin> set (field_str lib v)) cells) rows"
  shows "count_lines (concat (map (csv_row lib) rows)) = length rows"
  using assms by (induction rows) (simp_all add: count_lines_append count_lines_row count_lines_Nil)

text \<open>
  Claim C9, amended: when a non-empty sequence of N records is written, the file is the
  header row \<open>Title,Price,Rating,Availability,URL\<close> followed by one row for each record
  in input order, each row ended by CR LF, its cells in the order of the columns and
  separated by commas. A null field is an empty cell; a field that holds a comma, a double
  quote, a CR or an LF is written between double quotes with each double quote inside it
  doubled, and any other field is written as it is. The file has exactly N+1 lines when
  no field holds a line feed.
\<close>

theorem csv_rows_in_order:
  assumes "save_to_csv lib dest books_data = (True, Some text)"
  shows "text =
           ''Title,Price,Rating,Availability,URL'' @ [CR, LF]
           @ concat (map (\<lambda>book.
               join '',''
                 (map (\<lambda>key. csv_field (field_str lib
                         (case map_of book key of Some v \<Rightarrow> v | None \<Rightarrow> PyStr [])))
                    [''Title'', ''Price'', ''Rating'', ''Availability'', ''URL''])
               @ [CR, LF]) books_data)
         \<and> books_data \<noteq> []
         \<and> csv_field (field_str lib PyNone) = []
         \<and> csv_field s =
             (if \<exists>c\<in>set s. c = CHR '','' \<or> c = CHR 0x22 \<or> c = CR \<or> c = LF
              then [CHR 0x22]
                   @ concat (map (\<lambda>c. if c = CHR 0x22 then [CHR 0x22, CHR 0x22] else [c]) s)
                   @ [CHR 0x22]
              else s)
         \<and> join '','' [a, b, c, d, e] = a @ '','' @ b @ '','' @ c @ '','' @ d @ '','' @ e
         \<and> (list_all (\<lambda>book. list_all (\<lambda>key. LF \<notin> set (field_str lib
                   (case map_of book key of Some v \<Rightarrow> v | None \<Rightarrow> PyStr [])))
                   [''Title'', ''Price'', ''Rating'', ''Availability'', ''URL'']) books_data
              \<longrightarrow> count_lines text = length books_data + 1)"
proof -
  let ?cells = "\<lambda>book. map (\<lambda>key. case map_of book key of Some v \<Rightarrow> v | None \<Rightarrow> PyStr []) fieldnames"
  from assms have ne: "books_data \<noteq> []" and w: "write_csv lib dest books_data = Inr text"
    by (auto simp: save_to_csv_def split: if_splits sum.splits)
  from w obtain rows where r: "write_rows lib books_data = Inr rows"
    and t: "text = csv_row lib (map PyStr fieldnames) @ rows"
    by (cases dest) (auto simp: write_csv_def split: sum.splits)
  have rows: "rows = concat (map (csv_row lib) (map ?cells books_data))"
    using write_rows_text [OF r] by (simp add: comp_def)
  have 1: "text = ''Title,Price,Rating,Availability,URL'' @ [CR, LF]
           @ concat (map (\<lambda>book.
               join '',''
                 (map (\<lambda>key. csv_field (field_str lib
                         (case map_of book key of Some v \<Rightarrow> v | None \<Rightarrow> PyStr [])))
                    [''Title'', ''Price'', ''Rating'', ''Availability'', ''URL''])
               @ [CR, LF]) books_data)"
    unfolding t rows header_row by (simp add: csv_row_def fieldnames_def comp_def)
  have 2: "csv_field (field_str lib PyNone) = []"
    by (simp add: csv_field_def needs_quotes_def)
  have 3: "count_lines text = length books_data + 1"
    if "list_all (\<lambda>book. list_all (\<lambda>key. LF \<notin> set (field_str lib
                   (case map_of book key of Some v \<Rightarrow> v | None \<Rightarrow> PyStr [])))
                   [''Title'', ''Price'', ''Rating'', ''Availability'', ''URL'']) books_data"
  proof -
    from that have "list_all (\<lambda>cells. list_all (\<lambda>v. LF \<notin> set (field_str lib v)) cells)
        (map ?cells books_data)"
      by (simp add: list_all_iff fieldnames_def)
    from count_lines_rows [OF this] have "count_lines rows = length books_data"
      unfolding rows by simp
    moreover have "count_lines (csv_row lib (map PyStr fieldnames)) = 1"
      unfolding header_row by (simp add: count_lines_def CR_def LF_def)
    ultimately show ?thesis
      unfolding t by (simp add: count_lines_append)
  qed
  have 4: "join '','' [a, b, c, d, e] = a @ '','' @ b @ '','' @ c @ '','' @ d @ '','' @ e"
    by simp
  from 1 2 3 4 ne csv_field_eq [of s] show ?thesis
    by blast
qed

theorem csv_rows_in_order_witness:
  "save_to_csv shop_lib Writable [attic_record, wake_record, quoted_record] = (True, Some shop_csv)
   \<and> count_lines shop_csv = 4
   \<and> csv_field (''Eat, Pray, '' @ [CHR 0x22] @ ''Love'' @ [CHR 0x22]) =
       [CHR 0x22] @ ''Eat, Pray, '' @ [CHR 0x22, CHR 0x22] @ ''Love'' @ [CHR 0x22, CHR 0x22, CHR 0x22]"
proof -
  have h: "save_to_csv shop_lib Writable [attic_record, wake_record, quoted_record] =
      (True, Some shop_csv)"
    by code_simp
  note th = csv_rows_in_order [OF h]
  have t: "shop_csv =
      ''Title,Price,Rating,Availability,URL'' @ [CR, LF]
           @ concat (map (\<lambda>book.
               join '',''
                 (map (\<lambda>key. csv_field (field_str shop_lib
                         (case map_of book key of Some v \<Rightarrow> v | None \<Rightarrow> PyStr [])))
                    [''Title'', ''Price'', ''Rating'', ''Availability'', ''URL''])
               @ [CR, LF]) [attic_record, wake_record, quoted_record])"
    using th by blast
  have p: "list_all (\<lambda>book. list_all (\<lambda>key. LF \<notin> set (field_str shop_lib
                   (case map_of book key of Some v \<Rightarrow> v | None \<Rightarrow> PyStr [])))
                   [''Title'', ''Price'', ''Rating'', ''Availability'', ''URL''])
             [attic_record, wake_record, quoted_record]"
    by code_simp
  from th p
  have "count_lines shop_csv = length [attic_record, wake_record, quoted_record] + 1"
    by blast
  then have n: "count_lines shop_csv = 4"
    by simp
  have q: "csv_field (''Eat, Pray, '' @ [CHR 0x22] @ ''Love'' @ [CHR 0x22]) =
       [CHR 0x22] @ ''Eat, Pray, '' @ [CHR 0x22, CHR 0x22] @ ''Love'' @ [CHR 0x22, CHR 0x22, CHR 0x22]"
    by (rule trans [OF th [THEN conjunct2, THEN conjunct2, THEN conjunct2, THEN conjunct1]])
       code_simp
  from h n q show ?thesis
    by blast
qed

text \<open>
  Claim C9 as stated counts N+1 lines for every sequence of N records. A record whose
  title holds a line break is written as a quoted cell over two lines: the file for this
  one record has three lines.
\<close>

theorem csv_line_break_in_title_counterexample:
  "save_to_csv shop_lib Writable [two_line_record] = (True, Some two_line_csv)
   \<and> count_lines two_line_csv = 3
   \<and> length [two_line_record] + 1 = 2"
  by code_simp

end
